theory Spec2Isabelle
  imports Complex_Main "HOL-Library.Multiset"
begin

section \<open>Default boxes of the SSD model\<close>

text \<open>
  Python and NumPy floats are idealised as exact reals throughout: rounding of the
  floating-point operations is not modelled. Sizes and indices are naturals.
\<close>

datatype py_error = ZeroDivisionError | ValueError | IndexError | AttributeError

text \<open>A row of the NumPy box arrays: four floats.\<close>

type_synonym box = "real \<times> real \<times> real \<times> real"

text \<open>
  What \<open>SSDModel\<close> reads from a detector classifier \<open>dc\<close>:
  \<open>dc.get_feature_map_shape()[1]\<close>, \<open>dc.get_feature_map_shape()[2]\<close> and
  \<open>dc.get_dboxes()\<close>.
\<close>

record detector_block =
  fmap_width :: nat
  fmap_height :: nat
  get_dboxes :: "(real \<times> real) list"

text \<open>
  The fields of \<open>SSDModel\<close> that the default-box code reads and writes;
  \<open>image_w\<close> and \<open>image_h\<close> are \<open>input_shape[1]\<close> and \<open>input_shape[2]\<close>.
\<close>

record ssd_model =
  image_w :: nat
  image_h :: nat
  dcs :: "detector_block list"
  default_boxes_wh :: "box list"
  dc_block_feature_map_sizes :: "(nat \<times> nat) list"
  default_boxes :: "box list"
  total_predictions :: nat

subsection \<open>\<open>_default_box_generator\<close>\<close>

text \<open>The four assignments of the innermost loop body, for row \<open>i\<close> and column \<open>j\<close>.\<close>

definition cell_box :: "real \<Rightarrow> real \<Rightarrow> nat \<Rightarrow> nat \<Rightarrow> real \<Rightarrow> real \<Rightarrow> box" where
  "cell_box width_per_cell height_per_cell i j w h =
     (let current_height = real i * height_per_cell;
          current_width = real j * width_per_cell
      in (current_width + width_per_cell / 2,
          current_height + height_per_cell / 2,
          width_per_cell * w,
          height_per_cell * h))"

text \<open>\<open>for j in range(width)\<close>: writes \<open>boxes[i * width + j]\<close>.\<close>

definition fill_row :: "real \<Rightarrow> real \<Rightarrow> nat \<Rightarrow> nat \<Rightarrow> real \<Rightarrow> real \<Rightarrow> box list \<Rightarrow> box list" where
  "fill_row width_per_cell height_per_cell width i w h boxes =
     fold (\<lambda>j bs. bs[i * width + j := cell_box width_per_cell height_per_cell i j w h])
       [0..<width] boxes"

text \<open>\<open>for i in range(height)\<close>, starting from \<open>np.zeros((box_count, 4))\<close>.\<close>

definition fill_boxes :: "real \<Rightarrow> real \<Rightarrow> nat \<Rightarrow> nat \<Rightarrow> real \<Rightarrow> real \<Rightarrow> box list" where
  "fill_boxes width_per_cell height_per_cell width height w h =
     fold (\<lambda>i bs. fill_row width_per_cell height_per_cell width i w h bs)
       [0..<height] (replicate (width * height) (0, 0, 0, 0))"

text \<open>
  The true divisions raise \<open>ZeroDivisionError\<close> on a zero feature-map side, and
  \<open>np.vstack\<close> raises \<open>ValueError\<close> on an empty list of arrays.
\<close>

definition default_box_generator ::
  "nat \<Rightarrow> nat \<Rightarrow> nat \<Rightarrow> nat \<Rightarrow> (real \<times> real) list \<Rightarrow> py_error + box list" where
  "default_box_generator image_width image_height width height dboxes =
     (if width = 0 \<or> height = 0 then Inl ZeroDivisionError
      else
        let width_per_cell = real image_width / real width;
            height_per_cell = real image_height / real height;
            boxes_list = map (\<lambda>(w, h). fill_boxes width_per_cell height_per_cell width height w h) dboxes
        in if boxes_list = [] then Inl ValueError else Inr (concat boxes_list))"

subsection \<open>\<open>_generate_default_boxes\<close> and \<open>_correct_default_boxes\<close>\<close>

text \<open>\<open>for dc in self.dcs\<close>: collects the feature-map sizes and the generated arrays.\<close>

fun collect_blocks ::
  "nat \<Rightarrow> nat \<Rightarrow> detector_block list \<Rightarrow> (nat \<times> nat) list \<Rightarrow> box list list
     \<Rightarrow> py_error + ((nat \<times> nat) list \<times> box list list)" where
  "collect_blocks W H [] sizes arrays = Inr (sizes, arrays)"
| "collect_blocks W H (dc # rest) sizes arrays =
     (let width = fmap_width dc; height = fmap_height dc in
      case default_box_generator W H width height (get_dboxes dc) of
        Inl e \<Rightarrow> Inl e
      | Inr bs \<Rightarrow> collect_blocks W H rest (sizes @ [(width, height)]) (arrays @ [bs]))"

text \<open>\<open>(x, y, w, h) -----> (x1, y1, x2, y2)\<close>\<close>

definition to_corners :: "box \<Rightarrow> box" where
  "to_corners dbox =
     (case dbox of (d0, d1, d2, d3) \<Rightarrow> (d0 - d2 / 2, d1 - d3 / 2, d0 + d2 / 2, d1 + d3 / 2))"

text \<open>\<open>for dbox in self.default_boxes_wh\<close> with the running index \<open>i\<close>.\<close>

fun convert_loop :: "box list \<Rightarrow> nat \<Rightarrow> box list \<Rightarrow> box list" where
  "convert_loop [] i out = out"
| "convert_loop (dbox # rest) i out = convert_loop rest (Suc i) (out[i := to_corners dbox])"

text \<open>The four clipping assignments on \<open>dboxes[i]\<close>.\<close>

definition clip_box :: "nat \<Rightarrow> nat \<Rightarrow> box \<Rightarrow> box" where
  "clip_box max_x max_y b =
     (case b of (b0, b1, b2, b3) \<Rightarrow>
        (max 0 b0, max 0 b1, min (real max_x) b2, min (real max_y) b3))"

definition correct_default_boxes :: "ssd_model \<Rightarrow> box list \<Rightarrow> box list" where
  "correct_default_boxes self boxes =
     (let max_x = image_w self; max_y = image_h self in
      fold (\<lambda>i bs. bs[i := clip_box max_x max_y (bs ! i)]) [0..<length boxes] boxes)"

definition generate_default_boxes :: "ssd_model \<Rightarrow> py_error + ssd_model" where
  "generate_default_boxes self =
     (case collect_blocks (image_w self) (image_h self) (dcs self) [] [] of
        Inl e \<Rightarrow> Inl e
      | Inr (sizes, arrays) \<Rightarrow>
          if arrays = [] then Inl ValueError
          else
            let wh = concat arrays;
                converted = convert_loop wh 0 wh;
                corrected = correct_default_boxes self converted
            in Inr (self\<lparr>default_boxes_wh := wh,
                          dc_block_feature_map_sizes := sizes,
                          default_boxes := corrected,
                          total_predictions := length corrected\<rparr>))"

subsection \<open>\<open>get_dbox\<close>\<close>

text \<open>
  \<open>for i in range(dc_block_ind)\<close>; reading a list past its end raises \<open>IndexError\<close>.
  The indices are naturals here: Python's negative indices are outside of the model.
\<close>

fun blocks_to_pass :: "ssd_model \<Rightarrow> nat list \<Rightarrow> nat \<Rightarrow> py_error + nat" where
  "blocks_to_pass self [] acc = Inr acc"
| "blocks_to_pass self (i # rest) acc =
     (if i < length (dc_block_feature_map_sizes self) \<and> i < length (dcs self)
      then blocks_to_pass self rest
             (acc + fst (dc_block_feature_map_sizes self ! i) * snd (dc_block_feature_map_sizes self ! i)
                    * length (get_dboxes (dcs self ! i)))
      else Inl IndexError)"

definition get_dbox :: "ssd_model \<Rightarrow> nat \<Rightarrow> nat \<Rightarrow> nat \<Rightarrow> nat \<Rightarrow> py_error + box" where
  "get_dbox self dc_block_ind dbox_category x_pos y_pos =
     (case blocks_to_pass self [0..<dc_block_ind] 0 of
        Inl e \<Rightarrow> Inl e
      | Inr passed \<Rightarrow>
          if \<not> dc_block_ind < length (dc_block_feature_map_sizes self) then Inl IndexError
          else
            let size = dc_block_feature_map_sizes self ! dc_block_ind;
                passed = fold (\<lambda>i acc. acc + fst size * snd size) [0..<dbox_category] passed;
                passed = passed + fst size * x_pos;
                passed = passed + y_pos
            in if passed < length (default_boxes self) then Inr (default_boxes self ! passed)
               else Inl IndexError)"

subsection \<open>Auxiliary notions for the statements\<close>

definition valid_block :: "detector_block \<Rightarrow> bool" where
  "valid_block dc = (0 < fmap_width dc \<and> 0 < fmap_height dc \<and> get_dboxes dc \<noteq> [])"

definition block_default_boxes :: "nat \<Rightarrow> nat \<Rightarrow> detector_block \<Rightarrow> box list" where
  "block_default_boxes W H dc =
     concat (map (\<lambda>(w, h). fill_boxes (real W / real (fmap_width dc)) (real H / real (fmap_height dc))
                               (fmap_width dc) (fmap_height dc) w h) (get_dboxes dc))"

definition block_size :: "detector_block \<Rightarrow> nat" where
  "block_size dc = fmap_width dc * fmap_height dc * length (get_dboxes dc)"

definition example_model :: ssd_model where
  "example_model =
     \<lparr>image_w = 4, image_h = 4,
      dcs = [\<lparr>fmap_width = 2, fmap_height = 2, get_dboxes = [(1, 1)]\<rparr>],
      default_boxes_wh = [], dc_block_feature_map_sizes = [], default_boxes = [],
      total_predictions = 0\<rparr>"

definition two_block_model :: ssd_model where
  "two_block_model =
     \<lparr>image_w = 300, image_h = 200,
      dcs = [\<lparr>fmap_width = 3, fmap_height = 2, get_dboxes = [(1, 1), (2, 1 / 2)]\<rparr>,
             \<lparr>fmap_width = 1, fmap_height = 1, get_dboxes = [(1, 1), (3, 3)]\<rparr>],
      default_boxes_wh = [], dc_block_feature_map_sizes = [], default_boxes = [],
      total_predictions = 0\<rparr>"

definition clipping_model :: ssd_model where
  "clipping_model =
     \<lparr>image_w = 300, image_h = 200,
      dcs = [\<lparr>fmap_width = 2, fmap_height = 1, get_dboxes = [(1, 1 / 2), (3, 3)]\<rparr>],
      default_boxes_wh = [], dc_block_feature_map_sizes = [], default_boxes = [],
      total_predictions = 0\<rparr>"

section \<open>Training losses of the SSD model\<close>


















subsection \<open>\<open>_build_loc_loss\<close>\<close>



subsection \<open>Focal loss\<close>




subsection \<open>Top-k loss\<close>






subsection \<open>Scan loss\<close>





subsection \<open>Notions for the statements about the losses\<close>





section \<open>Lazy construction of the training operations\<close>

text \<open>
  An optimizer is a Python object; \<open>!=\<close> on optimizers is the default comparison by
  identity, so an optimizer is modelled by its identity. The graph constructions and
  session calls that the \<open>_minimize_..._loss\<close> methods perform are recorded in a trace.
\<close>

type_synonym optimizer = nat

datatype variant = Focal | TopK | Scan

datatype build_event =
    SetupForTraining
  | PrepareTrainingGraph
  | SetupLossInputs variant
  | BuildLoss variant
  | Minimize variant optimizer "nat option"
  | InitOptimizerVars optimizer
  | PrintNewOptimizer

text \<open>
  The operation \<open>optimizer.minimize(...)\<close> returns; every call creates a new one, told
  apart by the length of the trace at its creation.
\<close>

datatype train_op = TrainOp variant optimizer "nat option" nat

text \<open>
  The fields of \<open>SSDModel\<close> the methods read and write. An attribute that has not been
  assigned yet is \<open>None\<close>; reading it raises \<open>AttributeError\<close>. The three
  \<open>..._loss_is_build\<close> flags are assigned together with \<open>_training_vars_are_ready = True\<close>
  and are read only after that.
\<close>

record ssd_training =
  set_for_training :: bool
  training_vars_are_ready :: bool
  focal_loss_is_build :: bool
  top_k_loss_is_build :: bool
  scan_loss_is_build :: bool
  focal_optimizer :: "optimizer option"
  focal_train_op :: "train_op option"
  top_k_optimizer :: "optimizer option"
  top_k_train_op :: "train_op option"
  scan_optimizer :: "optimizer option"
  scan_train_op :: "train_op option"
  trace :: "build_event list"

text \<open>
  Modelled from the spec: \<open>MakiModel._setup_for_training\<close> is not part of these sources.
  It is taken to set \<open>_set_for_training\<close> and to leave the fields above alone.
\<close>

definition setup_for_training :: "ssd_training \<Rightarrow> ssd_training" where
  "setup_for_training s = s\<lparr>set_for_training := True, trace := trace s @ [SetupForTraining]\<rparr>"

definition prepare_training_graph :: "ssd_training \<Rightarrow> ssd_training" where
  "prepare_training_graph s =
     s\<lparr>training_vars_are_ready := True,
       focal_loss_is_build := False, top_k_loss_is_build := False, scan_loss_is_build := False,
       trace := trace s @ [PrepareTrainingGraph]\<rparr>"









subsection \<open>Notions for the statements about the training operations\<close>









text \<open>The two guarded preparations at the head of every \<open>_minimize_..._loss\<close>.\<close>

definition prepared :: "ssd_training \<Rightarrow> ssd_training" where
  "prepared s =
     (let s = (if \<not> set_for_training s then setup_for_training s else s)
      in if \<not> training_vars_are_ready s then prepare_training_graph s else s)"


section \<open>The training loops \<open>fit_focal\<close>, \<open>fit_top_k\<close> and \<open>fit_scan\<close>\<close>

text \<open>
  The classes of the objects that can be raised. \<open>SubclassOfException name\<close> is any class
  derived from \<open>Exception\<close> (TensorFlow's errors, \<open>ValueError\<close>, ...); \<open>KeyboardInterrupt\<close>,
  \<open>SystemExit\<close> and \<open>GeneratorExit\<close> derive from \<open>BaseException\<close> only.
\<close>

datatype py_class =
    BaseException_class
  | Exception_class
  | SubclassOfException string
  | KeyboardInterrupt_class
  | SystemExit_class
  | GeneratorExit_class

text \<open>\<open>issubclass(c, Exception)\<close>: what \<open>except Exception\<close> catches.\<close>

fun issubclass_Exception :: "py_class \<Rightarrow> bool" where
  "issubclass_Exception Exception_class = True"
| "issubclass_Exception (SubclassOfException name) = True"
| "issubclass_Exception BaseException_class = False"
| "issubclass_Exception KeyboardInterrupt_class = False"
| "issubclass_Exception SystemExit_class = False"
| "issubclass_Exception GeneratorExit_class = False"

text \<open>
  A Python object in the handlers: a raised exception is an instance of its class, with
  its message; \<open>KeyboardInterrupt\<close> in the guard is the class object itself.
\<close>

datatype py_object = Instance py_class string | Class py_class

text \<open>\<open>a is b\<close> between an exception instance and a class object.\<close>

definition py_is :: "py_object \<Rightarrow> py_object \<Rightarrow> bool" where
  "py_is a b = (a = b)"

text \<open>
  What one iteration of the batch loop meets: an exception raised by the statements
  outside of the inner \<open>try\<close> (the slicing and the running averages), an exception raised
  by \<open>session.run\<close>, or the batch losses that \<open>session.run\<close> returns.
\<close>

datatype 'l batch = BodyRaises py_class string | RunRaises py_class string | RunReturns 'l

text \<open>
  What one epoch meets: an exception raised by \<open>shuffle\<close> (outside of the epoch's
  \<open>try\<close>), and the batches.
\<close>

record 'l epoch =
  shuffle_raises :: "(py_class \<times> string) option"
  batches :: "'l batch list"

datatype 'l printed =
    PrintText string
  | PrintException py_class string
  | PrintEpoch nat 'l
  | IteratorClose

text \<open>
  \<open>for j in iterator\<close>: the result is the exception that leaves the loop or the running
  averages after it, with what was printed.
\<close>

fun run_batches ::
  "('l \<Rightarrow> 'l \<Rightarrow> 'l) \<Rightarrow> 'l batch list \<Rightarrow> 'l \<Rightarrow> ((py_class \<times> string) + 'l) \<times> 'l printed list" where
  "run_batches update [] running = (Inr running, [])"
| "run_batches update (BodyRaises c msg # rest) running = (Inl (c, msg), [])"
| "run_batches update (RunReturns losses # rest) running =
     run_batches update rest (update losses running)"
| "run_batches update (RunRaises c msg # rest) running =
     (if issubclass_Exception c
      then if py_is (Instance c msg) (Class KeyboardInterrupt_class)
           then (Inl (Exception_class, ''You have raised KeyboardInterrupt exception.''), [])
           else let (r, out) = run_batches update rest running
                in (r, PrintException c msg # out)
      else (Inl (c, msg), []))"

text \<open>
  \<open>for i in range(epochs)\<close> inside the outer \<open>try\<close>: the exception that leaves the loop
  (if any), the lists of the epochs' averages, whether \<open>iterator\<close> is not \<open>None\<close>, and
  what was printed.
\<close>

fun run_epochs ::
  "('l \<Rightarrow> 'l \<Rightarrow> 'l) \<Rightarrow> 'l \<Rightarrow> nat \<Rightarrow> 'l epoch list \<Rightarrow> 'l list \<Rightarrow> bool
     \<Rightarrow> (py_class \<times> string) option \<times> 'l list \<times> bool \<times> 'l printed list" where
  "run_epochs update zero i [] train_losses iterator = (None, train_losses, iterator, [])"
| "run_epochs update zero i (ep # rest) train_losses iterator =
     (case shuffle_raises ep of
        Some e \<Rightarrow> (Some e, train_losses, iterator, [PrintText ''Start shuffling...''])
      | None \<Rightarrow>
          (case run_batches update (batches ep) zero of
             (Inr running, out) \<Rightarrow>
               let (pending, losses, it, out') =
                     run_epochs update zero (Suc i) rest (train_losses @ [running]) True
               in (pending, losses, it,
                   [PrintText ''Start shuffling...'', PrintText ''Finished shuffling.''] @ out
                     @ [PrintEpoch i running] @ out')
           | (Inl (c, msg), out) \<Rightarrow>
               if issubclass_Exception c
               then let (pending, losses, it, out') =
                          run_epochs update zero (Suc i) rest train_losses True
                    in (pending, losses, it,
                        [PrintText ''Start shuffling...'', PrintText ''Finished shuffling.''] @ out
                          @ [IteratorClose, PrintException c msg] @ out')
               else (Some (c, msg), train_losses, True,
                     [PrintText ''Start shuffling...'', PrintText ''Finished shuffling.''] @ out)))"

text \<open>
  The outer \<open>try ... finally\<close>: the \<open>return\<close> of the \<open>finally\<close> block discards a pending
  exception. The result is \<open>Inl\<close> for an exception that reaches the caller.
\<close>

definition fit_loop ::
  "('l \<Rightarrow> 'l \<Rightarrow> 'l) \<Rightarrow> 'l \<Rightarrow> ('l list \<Rightarrow> 'd) \<Rightarrow> 'l epoch list
     \<Rightarrow> ((py_class \<times> string) + 'd) \<times> 'l printed list" where
  "fit_loop update zero result epochs =
     (case run_epochs update zero 0 epochs [] False of
        (pending, train_losses, iterator, out) \<Rightarrow>
          (Inr (result train_losses), out @ (if iterator then [IteratorClose] else [])))"

text \<open>
  \<open>fit_focal\<close> from its \<open>try\<close> on. The batch losses are \<open>(batch_total_loss,
  batch_focal_loss, batch_loc_loss)\<close>, the running averages \<open>(loc_loss, focal_loss,
  total_loss)\<close>, written with a prime to tell them from the loss tensors of the same names.
\<close>

definition focal_update :: "real \<times> real \<times> real \<Rightarrow> real \<times> real \<times> real \<Rightarrow> real \<times> real \<times> real" where
  "focal_update b r =
     (case (b, r) of ((batch_total_loss, batch_focal_loss, batch_loc_loss), (loc_loss', focal_loss', total_loss')) \<Rightarrow>
        (0.1 * batch_loc_loss + 0.9 * loc_loss',
         0.1 * batch_focal_loss + 0.9 * focal_loss',
         0.1 * batch_total_loss + 0.9 * total_loss'))"

definition focal_history :: "(real \<times> real \<times> real) list \<Rightarrow> (string \<times> real list) list" where
  "focal_history train_losses =
     [(''focal losses'', map (\<lambda>(loc_loss', focal_loss', total_loss'). focal_loss') train_losses),
      (''total losses'', map (\<lambda>(loc_loss', focal_loss', total_loss'). total_loss') train_losses),
      (''loc losses'', map (\<lambda>(loc_loss', focal_loss', total_loss'). loc_loss') train_losses)]"

definition fit_focal ::
  "(real \<times> real \<times> real) epoch list
     \<Rightarrow> ((py_class \<times> string) + (string \<times> real list) list) \<times> (real \<times> real \<times> real) printed list" where
  "fit_focal epochs = fit_loop focal_update (0, 0, 0) focal_history epochs"

text \<open>
  \<open>fit_top_k\<close> and \<open>fit_scan\<close> from their \<open>try\<close> on. The batch losses are
  \<open>(batch_total_loss, batch_p_loss, batch_n_loss, batch_loc_loss)\<close>, the running averages
  \<open>(loc_loss', neg_loss', pos_loss', total_loss')\<close>.
\<close>

definition mining_update ::
  "real \<times> real \<times> real \<times> real \<Rightarrow> real \<times> real \<times> real \<times> real \<Rightarrow> real \<times> real \<times> real \<times> real" where
  "mining_update b r =
     (case (b, r) of
        ((batch_total_loss, batch_p_loss, batch_n_loss, batch_loc_loss),
         (loc_loss', neg_loss', pos_loss', total_loss')) \<Rightarrow>
        (0.1 * batch_loc_loss + 0.9 * loc_loss',
         0.1 * batch_n_loss + 0.9 * neg_loss',
         0.1 * batch_p_loss + 0.9 * pos_loss',
         0.1 * batch_total_loss + 0.9 * total_loss'))"

definition mining_history :: "(real \<times> real \<times> real \<times> real) list \<Rightarrow> (string \<times> real list) list" where
  "mining_history train_losses =
     [(''positive losses'', map (\<lambda>(loc_loss', neg_loss', pos_loss', total_loss'). pos_loss') train_losses),
      (''negative losses'', map (\<lambda>(loc_loss', neg_loss', pos_loss', total_loss'). neg_loss') train_losses),
      (''total losses'', map (\<lambda>(loc_loss', neg_loss', pos_loss', total_loss'). total_loss') train_losses),
      (''loc losses'', map (\<lambda>(loc_loss', neg_loss', pos_loss', total_loss'). loc_loss') train_losses)]"

definition fit_top_k ::
  "(real \<times> real \<times> real \<times> real) epoch list
     \<Rightarrow> ((py_class \<times> string) + (string \<times> real list) list) \<times> (real \<times> real \<times> real \<times> real) printed list" where
  "fit_top_k epochs = fit_loop mining_update (0, 0, 0, 0) mining_history epochs"

definition fit_scan ::
  "(real \<times> real \<times> real \<times> real) epoch list
     \<Rightarrow> ((py_class \<times> string) + (string \<times> real list) list) \<times> (real \<times> real \<times> real \<times> real) printed list" where
  "fit_scan epochs = fit_loop mining_update (0, 0, 0, 0) mining_history epochs"

subsection \<open>Notions for the statements about the training loops\<close>

text \<open>The exception with which the batch loop is left, if it is left by one.\<close>

fun leaves_batch_loop :: "'l batch list \<Rightarrow> (py_class \<times> string) option" where
  "leaves_batch_loop [] = None"
| "leaves_batch_loop (BodyRaises c msg # rest) = Some (c, msg)"
| "leaves_batch_loop (RunReturns losses # rest) = leaves_batch_loop rest"
| "leaves_batch_loop (RunRaises c msg # rest) =
     (if issubclass_Exception c then leaves_batch_loop rest else Some (c, msg))"

text \<open>
  The number of fully completed epochs: an epoch whose batch loop is left by an instance
  of \<open>Exception\<close> is abandoned and the next one starts; any other exception, and any
  exception of \<open>shuffle\<close>, ends the training.
\<close>

fun completed_epochs :: "'l epoch list \<Rightarrow> nat" where
  "completed_epochs [] = 0"
| "completed_epochs (ep # rest) =
     (case shuffle_raises ep of
        Some e \<Rightarrow> 0
      | None \<Rightarrow>
          (case leaves_batch_loop (batches ep) of
             None \<Rightarrow> Suc (completed_epochs rest)
           | Some (c, msg) \<Rightarrow> if issubclass_Exception c then completed_epochs rest else 0))"

text \<open>What a run of the epoch loop leaves apart from the printed lines.\<close>

definition loop_result ::
  "(py_class \<times> string) option \<times> 'l list \<times> bool \<times> 'l printed list
     \<Rightarrow> (py_class \<times> string) option \<times> 'l list \<times> bool" where
  "loop_result r = (case r of (pending, losses, iterator, out) \<Rightarrow> (pending, losses, iterator))"

section \<open>The class balancer \<open>GDBalancer\<close>\<close>

text \<open>
  The balancer builds a TensorFlow graph; its fields hold graph nodes. A node is a term
  over the operations the module uses. Every \<open>tf.Variable(...)\<close> is a new variable, told
  apart by a number taken from a counter of the graph; it carries its initial value
  (\<open>np.reshape(initial_c, [-1, 1])\<close>). The shapes of \<open>hcv_groups\<close> and \<open>initial_c\<close> are taken
  to agree, so that \<open>tf.matmul\<close> does not raise.
\<close>

datatype tensor =
    Constant "real list list"
  | Placeholder nat
  | Variable nat "real list"
  | MatMul tensor tensor
  | Mul tensor tensor
  | Sub tensor tensor
  | Div tensor tensor
  | ReduceSum tensor
  | Sqrt tensor

definition vec_len :: "tensor \<Rightarrow> tensor" where
  "vec_len vec = (let vec2 = Mul vec vec; vec_sum = ReduceSum vec2 in Sqrt vec_sum)"

definition distance :: "tensor \<Rightarrow> tensor \<Rightarrow> tensor" where
  "distance vec1 vec2 = (let diff = Sub vec1 vec2 in vec_len diff)"

definition normalize :: "tensor \<Rightarrow> tensor" where
  "normalize vec = (let vec_l = vec_len vec in Div vec vec_l)"

text \<open>An attribute of a Python object: not assigned yet, or assigned a value.\<close>

datatype 'a attr = Unset | Value 'a

text \<open>
  The fields of a \<open>GDBalancer\<close>. \<open>optimizer\<close> holds the identity of the bound optimizer, or
  Python's \<open>None\<close>; \<open>train_op\<close> the optimizer and the objective of the last
  \<open>optimizer.minimize(self.objective)\<close>.
\<close>

record gd_balancer =
  min_amount :: real
  max_amount :: real
  vecs :: "tensor attr"
  dest_v :: "tensor attr"
  cardinalities :: "tensor attr"
  scaled_hcvgs :: "tensor attr"
  objective :: "tensor attr"
  optimizer :: "nat option attr"
  train_op :: "(nat \<times> tensor) attr"

text \<open>
  The methods take the counter of the graph and the lines printed so far, and return them
  updated with the object; \<open>Inl\<close> is a raised exception.
\<close>

type_synonym balancer_state = "nat \<times> string list \<times> gd_balancer"

text \<open>\<open>_setup_initial_values\<close>, for \<open>hcv_groups\<close> given as an array (its transpose is passed).\<close>

definition setup_initial_values :: "real list list \<Rightarrow> gd_balancer \<Rightarrow> gd_balancer" where
  "setup_initial_values hcv_groups_T self =
     self\<lparr>vecs := Value (Constant hcv_groups_T), dest_v := Value (Placeholder (length hcv_groups_T))\<rparr>"

text \<open>\<open>_build_objective\<close>\<close>

definition build_objective :: "string \<Rightarrow> string list \<times> gd_balancer \<Rightarrow> py_error + (string list \<times> gd_balancer)" where
  "build_objective name st =
     (case st of (out, self) \<Rightarrow>
        if name = ''alpha'' then
          (case (scaled_hcvgs self, cardinalities self, dest_v self) of
             (Value scaled, Value cards, Value dest) \<Rightarrow>
               let norm_vecs = Div scaled (ReduceSum cards)
               in Inr (out, self\<lparr>objective := Value (distance norm_vecs dest)\<rparr>)
           | _ \<Rightarrow> Inl AttributeError)
        else if name = ''geo'' then
          (case (scaled_hcvgs self, dest_v self) of
             (Value scaled, Value dest) \<Rightarrow>
               let norm_vecs = normalize scaled
               in Inr (out, self\<lparr>objective := Value (distance norm_vecs dest)\<rparr>)
           | _ \<Rightarrow> Inl AttributeError)
        else Inr (out @ [''Unknowm objective. Call `reset` with the correct one.''], self))"

text \<open>\<open>reset\<close>\<close>

definition reset :: "real list \<Rightarrow> string \<Rightarrow> balancer_state \<Rightarrow> py_error + balancer_state" where
  "reset initial_c name st =
     (case st of (next_variable, out, self) \<Rightarrow>
        let self = self\<lparr>cardinalities := Value (Variable next_variable initial_c)\<rparr> in
        case (vecs self, cardinalities self) of
          (Value v, Value cards) \<Rightarrow>
            let self = self\<lparr>scaled_hcvgs := Value (MatMul v cards)\<rparr> in
            (case build_objective name (out, self) of
               Inl e \<Rightarrow> Inl e
             | Inr (out, self) \<Rightarrow> Inr (Suc next_variable, out, self\<lparr>optimizer := Value None\<rparr>))
        | _ \<Rightarrow> Inl AttributeError)"

text \<open>\<open>__init__\<close>, on an object none of whose attributes is assigned.\<close>

definition new_balancer :: gd_balancer where
  "new_balancer =
     \<lparr>min_amount = 0, max_amount = 0, vecs = Unset, dest_v = Unset, cardinalities = Unset,
      scaled_hcvgs = Unset, objective = Unset, optimizer = Unset, train_op = Unset\<rparr>"

definition init ::
  "real list list \<Rightarrow> real list \<Rightarrow> string \<Rightarrow> real \<Rightarrow> real \<Rightarrow> nat \<times> string list
     \<Rightarrow> py_error + balancer_state" where
  "init hcv_groups_T initial_c name min_c max_c graph =
     (case graph of (next_variable, out) \<Rightarrow>
        let self = new_balancer\<lparr>min_amount := min_c, max_amount := max_c\<rparr>;
            self = setup_initial_values hcv_groups_T self
        in reset initial_c name (next_variable, out, self))"

text \<open>\<open>_build_train_op\<close>\<close>

definition build_train_op :: "nat \<Rightarrow> gd_balancer \<Rightarrow> py_error + ((nat \<times> tensor) \<times> gd_balancer)" where
  "build_train_op opt self =
     (case optimizer self of
        Unset \<Rightarrow> Inl AttributeError
      | Value bound \<Rightarrow>
          if bound \<noteq> Some opt then
            (case objective self of
               Unset \<Rightarrow> Inl AttributeError
             | Value obj \<Rightarrow>
                 Inr ((opt, obj), self\<lparr>optimizer := Value (Some opt), train_op := Value (opt, obj)\<rparr>))
          else (case train_op self of Unset \<Rightarrow> Inl AttributeError | Value t \<Rightarrow> Inr (t, self)))"

subsection \<open>Notions for the statements about the balancer\<close>

text \<open>
  The balancer that \<open>GDBalancer(hcv_groups, [10, 20], 'alpha', 5.0, 10000.0)\<close> builds in a
  new graph, after \<open>_build_train_op\<close> has bound optimizer 3 to it.
\<close>

definition balancer_in_use :: gd_balancer where
  "balancer_in_use =
     (let cards = Variable 0 [10, 20];
          scaled = MatMul (Constant [[1, 0], [0, 1]]) cards;
          obj = distance (Div scaled (ReduceSum cards)) (Placeholder 2)
      in \<lparr>min_amount = 5, max_amount = 10000,
          vecs = Value (Constant [[1, 0], [0, 1]]), dest_v = Value (Placeholder 2),
          cardinalities = Value cards, scaled_hcvgs = Value scaled, objective = Value obj,
          optimizer = Value (Some 3), train_op = Value (3, obj)\<rparr>)"

definition unknown_objective_message :: string where
  "unknown_objective_message = ''Unknowm objective. Call `reset` with the correct one.''"

section \<open>Properties of the generator\<close>

lemma length_fold_update:
  "length (fold (\<lambda>j bs. bs[f j := g j bs]) js bs) = length bs"
  by (induction js arbitrary: bs) simp_all

lemma length_fill_row [simp]: "length (fill_row wpc hpc width i w h boxes) = length boxes"
  unfolding fill_row_def by (rule length_fold_update)

lemma fill_row_prefix_nth:
  assumes "n < length bs"
  shows "fold (\<lambda>j bs. bs[i * width + j := c j]) [0..<m] bs ! n =
           (if i * width \<le> n \<and> n < i * width + m then c (n - i * width) else bs ! n)"
  using assms
proof (induction m)
  case 0
  then show ?case by auto
next
  case (Suc m)
  have len: "length (fold (\<lambda>j bs. bs[i * width + j := c j]) [0..<m] bs) = length bs"
    by (rule length_fold_update)
  show ?case
  proof (cases "n = i * width + m")
    case True
    then show ?thesis using Suc.prems len by simp
  next
    case False
    then show ?thesis using Suc by auto
  qed
qed

lemma fill_row_nth:
  assumes "n < length bs"
  shows "fill_row wpc hpc width i w h bs ! n =
           (if i * width \<le> n \<and> n < i * width + width
            then cell_box wpc hpc i (n - i * width) w h else bs ! n)"
  unfolding fill_row_def using fill_row_prefix_nth [OF assms] by simp

lemma length_fill_rows:
  "length (fold (\<lambda>i bs. fill_row wpc hpc width i w h bs) is bs) = length bs"
  by (induction "is" arbitrary: bs) simp_all

lemma fill_rows_prefix_nth:
  assumes "n < length bs" and "0 < width"
  shows "fold (\<lambda>i bs. fill_row wpc hpc width i w h bs) [0..<k] bs ! n =
           (if n < k * width then cell_box wpc hpc (n div width) (n mod width) w h else bs ! n)"
  using assms
proof (induction k)
  case 0
  then show ?case by simp
next
  case (Suc k)
  let ?prev = "fold (\<lambda>i bs. fill_row wpc hpc width i w h bs) [0..<k] bs"
  have len: "n < length ?prev" using Suc.prems by (simp add: length_fill_rows)
  have step: "fold (\<lambda>i bs. fill_row wpc hpc width i w h bs) [0..<Suc k] bs ! n =
                (if k * width \<le> n \<and> n < k * width + width
                 then cell_box wpc hpc k (n - k * width) w h else ?prev ! n)"
    using fill_row_nth [OF len] by simp
  show ?case
  proof (cases "k * width \<le> n \<and> n < k * width + width")
    case True
    then have d: "n div width = k"
      by (intro div_nat_eqI) (simp_all add: mult.commute)
    have "n mod width = n - k * width"
      using d by (metis minus_div_mult_eq_mod)
    with True d step show ?thesis by simp
  next
    case False
    with step Suc show ?thesis by auto
  qed
qed

lemma length_fill_boxes [simp]: "length (fill_boxes wpc hpc width height w h) = width * height"
  unfolding fill_boxes_def by (simp add: length_fill_rows)

lemma fill_boxes_nth:
  assumes "i < height" and "j < width"
  shows "fill_boxes wpc hpc width height w h ! (i * width + j) = cell_box wpc hpc i j w h"
proof -
  have "i * width + j < Suc i * width" using assms by simp
  also have "\<dots> \<le> height * width" using assms by (intro mult_le_mono1) simp
  finally have lt: "i * width + j < height * width" .
  then have "i * width + j < length (replicate (width * height) (0::real, 0::real, 0::real, 0::real))"
    by (simp add: mult.commute)
  moreover have "0 < width" using assms by simp
  ultimately show ?thesis
    unfolding fill_boxes_def using lt assms
    by (simp add: fill_rows_prefix_nth)
qed

lemma concat_blocks_length:
  "list_all (\<lambda>b. length b = m) bss \<Longrightarrow> length (concat bss) = length bss * m"
  by (induction bss) simp_all

lemma concat_blocks_nth:
  "list_all (\<lambda>b. length b = m) bss \<Longrightarrow> k < length bss \<Longrightarrow> r < m \<Longrightarrow>
     concat bss ! (k * m + r) = bss ! k ! r"
proof (induction bss arbitrary: k)
  case Nil
  then show ?case by simp
next
  case (Cons b bss)
  show ?case
  proof (cases k)
    case 0
    with Cons.prems show ?thesis by (simp add: nth_append)
  next
    case (Suc k')
    with Cons.prems have "concat bss ! (k' * m + r) = bss ! k' ! r"
      by (intro Cons.IH) simp_all
    moreover have "Suc k' * m + r = length b + (k' * m + r)"
      using Cons.prems by simp
    ultimately show ?thesis using Suc by (simp add: nth_append)
  qed
qed

lemma default_box_generator_ok:
  assumes "0 < width" and "0 < height" and "dboxes \<noteq> []"
  shows "default_box_generator W H width height dboxes =
           Inr (concat (map (\<lambda>(w, h). fill_boxes (real W / real width) (real H / real height)
                                          width height w h) dboxes))"
  using assms by (simp add: default_box_generator_def)

lemma generator_blocks_all:
  "list_all (\<lambda>b. length b = width * height)
     (map (\<lambda>(w, h). fill_boxes wpc hpc width height w h) dboxes)"
  by (simp add: list_all_iff split_beta)

lemma convert_loop_length [simp]: "length (convert_loop xs i out) = length out"
  by (induction xs i out rule: convert_loop.induct) simp_all

lemma convert_loop_nth:
  "n < length out \<Longrightarrow>
   convert_loop xs i out ! n =
     (if i \<le> n \<and> n < i + length xs then to_corners (xs ! (n - i)) else out ! n)"
proof (induction xs i out rule: convert_loop.induct)
  case (1 i out)
  then show ?case by auto
next
  case (2 dbox rest i out)
  then show ?case
    by (cases "n = i") (auto simp: nth_Cons' Suc_diff_le)
qed

lemma convert_loop_map: "convert_loop wh 0 wh = map to_corners wh"
  by (rule nth_equalityI) (simp_all add: convert_loop_nth)

lemma correct_prefix_length:
  "length (fold (\<lambda>i bs. bs[i := f (bs ! i)]) js bs) = length bs"
  by (induction js arbitrary: bs) simp_all

lemma correct_prefix_nth:
  "n < length bs \<Longrightarrow>
   fold (\<lambda>i bs. bs[i := f (bs ! i)]) [0..<m] bs ! n = (if n < m then f (bs ! n) else bs ! n)"
proof (induction m)
  case 0
  then show ?case by simp
next
  case (Suc m)
  then show ?case
    by (cases "n = m") (auto simp: correct_prefix_length)
qed

lemma correct_default_boxes_map:
  "correct_default_boxes self boxes = map (clip_box (image_w self) (image_h self)) boxes"
  unfolding correct_default_boxes_def Let_def
  by (rule nth_equalityI) (simp_all add: correct_prefix_length correct_prefix_nth)

lemma fill_boxes_nth_div:
  assumes "n < width * height"
  shows "fill_boxes wpc hpc width height w h ! n = cell_box wpc hpc (n div width) (n mod width) w h"
proof -
  have w: "0 < width" using assms by (cases width) simp_all
  have "n < length (replicate (width * height) (0::real, 0::real, 0::real, 0::real))"
    using assms by simp
  moreover have "n < height * width" using assms by (simp add: mult.commute)
  ultimately show ?thesis
    unfolding fill_boxes_def using w by (simp add: fill_rows_prefix_nth)
qed

lemma fill_boxes_set:
  assumes "b \<in> set (fill_boxes wpc hpc width height w h)"
  shows "\<exists>i<height. \<exists>j<width. b = cell_box wpc hpc i j w h"
proof -
  from assms obtain n where n: "n < width * height" and b: "b = fill_boxes wpc hpc width height w h ! n"
    by (auto simp: in_set_conv_nth)
  have w: "0 < width" using n by (cases width) simp_all
  have "n div width < height" using n w by (simp add: less_mult_imp_div_less mult.commute)
  moreover have "n mod width < width" using w by simp
  ultimately show ?thesis using b fill_boxes_nth_div [OF n] by metis
qed

lemma default_box_generator_Inr:
  "default_box_generator W H width height dboxes = Inr bs \<longleftrightarrow>
     0 < width \<and> 0 < height \<and> dboxes \<noteq> [] \<and>
     bs = concat (map (\<lambda>(w, h). fill_boxes (real W / real width) (real H / real height)
                                    width height w h) dboxes)"
  by (auto simp: default_box_generator_def Let_def)

lemma length_block_default_boxes: "length (block_default_boxes W H dc) = block_size dc"
  unfolding block_default_boxes_def block_size_def
  using concat_blocks_length [OF generator_blocks_all] by (simp add: mult.commute)

lemma collect_blocks_Inr:
  "collect_blocks W H ds sizes arrays = Inr (s, a) \<longleftrightarrow>
     list_all valid_block ds \<and>
     s = sizes @ map (\<lambda>dc. (fmap_width dc, fmap_height dc)) ds \<and>
     a = arrays @ map (block_default_boxes W H) ds"
proof (induction ds arbitrary: sizes arrays)
  case Nil
  then show ?case by auto
next
  case (Cons dc ds)
  show ?case
  proof (cases "default_box_generator W H (fmap_width dc) (fmap_height dc) (get_dboxes dc)")
    case (Inl e)
    then have "\<not> valid_block dc"
      by (auto simp: default_box_generator_def valid_block_def Let_def split: if_splits)
    with Inl show ?thesis by (simp add: Let_def)
  next
    case (Inr bs)
    then have "valid_block dc" and "bs = block_default_boxes W H dc"
      by (simp_all add: default_box_generator_Inr valid_block_def block_default_boxes_def)
    with Inr show ?thesis by (simp add: Let_def Cons.IH)
  qed
qed

lemma generate_default_boxes_Inr:
  "generate_default_boxes self = Inr self' \<longleftrightarrow>
     dcs self \<noteq> [] \<and> list_all valid_block (dcs self) \<and>
     self' = self\<lparr>default_boxes_wh := concat (map (block_default_boxes (image_w self) (image_h self)) (dcs self)),
                   dc_block_feature_map_sizes := map (\<lambda>dc. (fmap_width dc, fmap_height dc)) (dcs self),
                   default_boxes := map (clip_box (image_w self) (image_h self) \<circ> to_corners)
                     (concat (map (block_default_boxes (image_w self) (image_h self)) (dcs self))),
                   total_predictions := sum_list (map block_size (dcs self))\<rparr>"
proof (cases "collect_blocks (image_w self) (image_h self) (dcs self) [] []")
  case (Inl e)
  then have "\<not> list_all valid_block (dcs self)"
    using collect_blocks_Inr [of "image_w self" "image_h self" "dcs self" "[]" "[]"]
    by (metis (no_types, lifting) Inl_Inr_False append_Nil)
  with Inl show ?thesis by (simp add: generate_default_boxes_def)
next
  case (Inr p)
  obtain s a where p: "p = (s, a)" by (cases p)
  from Inr p have ok: "list_all valid_block (dcs self)"
    and s: "s = map (\<lambda>dc. (fmap_width dc, fmap_height dc)) (dcs self)"
    and a: "a = map (block_default_boxes (image_w self) (image_h self)) (dcs self)"
    by (simp_all add: collect_blocks_Inr)
  have len: "length (concat a) = sum_list (map block_size (dcs self))"
    unfolding a by (simp add: length_concat o_def length_block_default_boxes)
  show ?thesis
    using Inr p ok len
    by (auto simp: generate_default_boxes_def Let_def s a convert_loop_map correct_default_boxes_map)
qed

lemma cell_clip_bounds:
  fixes c d :: real
  assumes "0 \<le> cx" and "cx \<le> M" and "0 \<le> d"
  shows "0 \<le> max 0 (cx - d) \<and> max 0 (cx - d) \<le> min M (cx + d) \<and> min M (cx + d) \<le> M"
  using assms by (auto simp: max_def min_def)

lemma cell_centre_bounds:
  assumes "j < n"
  shows "0 \<le> real j * (real M / real n) + real M / real n / 2"
    and "real j * (real M / real n) + real M / real n / 2 \<le> real M"
proof -
  have n: "0 < real n" using assms by simp
  have c: "0 \<le> real M / real n" by simp
  show "0 \<le> real j * (real M / real n) + real M / real n / 2" using c by simp
  have "real j + 1 / 2 \<le> real n" using assms by simp
  then have "(real j + 1 / 2) * (real M / real n) \<le> real n * (real M / real n)"
    using c by (rule mult_right_mono)
  also have "\<dots> = real M" using n by simp
  finally show "real j * (real M / real n) + real M / real n / 2 \<le> real M"
    by (simp add: algebra_simps)
qed

lemma clipped_cell_box_ok:
  assumes "i < fh" and "j < fw" and "0 \<le> w" and "0 \<le> h"
    and "clip_box W H (to_corners (cell_box (real W / real fw) (real H / real fh) i j w h)) = (x1, y1, x2, y2)"
  shows "0 \<le> x1 \<and> x1 \<le> x2 \<and> x2 \<le> real W \<and> 0 \<le> y1 \<and> y1 \<le> y2 \<and> y2 \<le> real H"
proof -
  have dx: "0 \<le> real W / real fw * w / 2" using assms(3) by simp
  have dy: "0 \<le> real H / real fh * h / 2" using assms(4) by simp
  note X = cell_clip_bounds [OF cell_centre_bounds [OF assms(2), of W] dx]
  note Y = cell_clip_bounds [OF cell_centre_bounds [OF assms(1), of H] dy]
  from assms(5) have
    "x1 = max 0 (real j * (real W / real fw) + real W / real fw / 2 - real W / real fw * w / 2)"
    "x2 = min (real W) (real j * (real W / real fw) + real W / real fw / 2 + real W / real fw * w / 2)"
    "y1 = max 0 (real i * (real H / real fh) + real H / real fh / 2 - real H / real fh * h / 2)"
    "y2 = min (real H) (real i * (real H / real fh) + real H / real fh / 2 + real H / real fh * h / 2)"
    by (simp_all add: clip_box_def to_corners_def cell_box_def Let_def)
  with X Y show ?thesis by simp
qed

lemma generator_box_at:
  assumes "0 < fw" and "0 < fh" and "k < length shapes" and "i < fh" and "j < fw"
  shows "concat (map (\<lambda>(w, h). fill_boxes wpc hpc fw fh w h) shapes) ! (k * (fw * fh) + (i * fw + j))
           = cell_box wpc hpc i j (fst (shapes ! k)) (snd (shapes ! k))"
proof -
  have "i * fw + j < Suc i * fw" using assms by simp
  also have "\<dots> \<le> fh * fw" using assms by (intro mult_le_mono1) simp
  finally have r: "i * fw + j < fw * fh" by (simp add: mult.commute)
  have "concat (map (\<lambda>(w, h). fill_boxes wpc hpc fw fh w h) shapes) ! (k * (fw * fh) + (i * fw + j))
          = map (\<lambda>(w, h). fill_boxes wpc hpc fw fh w h) shapes ! k ! (i * fw + j)"
    using assms(3) r by (intro concat_blocks_nth [OF generator_blocks_all]) simp_all
  also have "\<dots> = fill_boxes wpc hpc fw fh (fst (shapes ! k)) (snd (shapes ! k)) ! (i * fw + j)"
    using assms(3) by (simp add: split_beta)
  also have "\<dots> = cell_box wpc hpc i j (fst (shapes ! k)) (snd (shapes ! k))"
    using assms by (simp add: fill_boxes_nth)
  finally show ?thesis .
qed

lemma cell_box_centre_form:
  "cell_box (real W / real fw) (real H / real fh) i j w h =
     ((real j + 1 / 2) * (real W / real fw), (real i + 1 / 2) * (real H / real fh),
      real W / real fw * w, real H / real fh * h)"
  by (simp add: cell_box_def Let_def algebra_simps)

text \<open>
  Claim C5 (anchor generation contract). For a feature map with \<open>0 < fw\<close>, \<open>0 < fh\<close>
  and a non-empty shape list, \<open>_default_box_generator\<close> returns \<open>fw * fh * len(shapes)\<close>
  boxes; the box of shape \<open>k\<close>, row \<open>i\<close> and column \<open>j\<close> stands at position
  \<open>k * (fw * fh) + i * fw + j\<close> (shapes as outer blocks, row-major within a shape) and is
  \<open>((j + 0.5) * W / fw, (i + 0.5) * H / fh, W / fw * w\<^sub>k, H / fh * h\<^sub>k)\<close>. For a model
  whose blocks are all of that kind, \<open>_generate_default_boxes\<close> stacks the arrays of the
  blocks in list order, so the anchor set has \<open>sum fw\<^sub>i * fh\<^sub>i * num_shapes\<^sub>i\<close> rows. The
  instance of the specification (one 2 x 2 block, shape (1, 1), image 4 x 4) has the four
  centres and corner boxes it lists, in that order. (A zero feature-map side makes the
  Python code raise \<open>ZeroDivisionError\<close>, an empty list of arrays \<open>ValueError\<close>.)
\<close>

theorem default_box_generator_contract:
  "(0 < fw \<and> 0 < fh \<and> shapes \<noteq> [] \<longrightarrow>
      (\<exists>boxes. default_box_generator W H fw fh shapes = Inr boxes
         \<and> length boxes = fw * fh * length shapes
         \<and> (\<forall>k<length shapes. \<forall>i<fh. \<forall>j<fw.
              boxes ! (k * (fw * fh) + (i * fw + j)) =
                ((real j + 1 / 2) * (real W / real fw), (real i + 1 / 2) * (real H / real fh),
                 real W / real fw * fst (shapes ! k), real H / real fh * snd (shapes ! k)))))
   \<and> (dcs self \<noteq> [] \<and> list_all valid_block (dcs self) \<longrightarrow>
      (\<exists>self' arrays. generate_default_boxes self = Inr self'
         \<and> map (\<lambda>dc. default_box_generator (image_w self) (image_h self)
                        (fmap_width dc) (fmap_height dc) (get_dboxes dc)) (dcs self) = map Inr arrays
         \<and> default_boxes_wh self' = concat arrays
         \<and> length (default_boxes_wh self') =
             (\<Sum>dc\<leftarrow>dcs self. fmap_width dc * fmap_height dc * length (get_dboxes dc))
         \<and> length (default_boxes self') = length (default_boxes_wh self')
         \<and> total_predictions self' = length (default_boxes self')))
   \<and> generate_default_boxes example_model =
       Inr (example_model
             \<lparr>default_boxes_wh := [(1, 1, 2, 2), (3, 1, 2, 2), (1, 3, 2, 2), (3, 3, 2, 2)],
              dc_block_feature_map_sizes := [(2, 2)],
              default_boxes := [(0, 0, 2, 2), (2, 0, 4, 2), (0, 2, 2, 4), (2, 2, 4, 4)],
              total_predictions := 4\<rparr>)"
proof (intro conjI impI)
  assume a: "0 < fw \<and> 0 < fh \<and> shapes \<noteq> []"
  let ?boxes = "concat (map (\<lambda>(w, h). fill_boxes (real W / real fw) (real H / real fh) fw fh w h) shapes)"
  have "default_box_generator W H fw fh shapes = Inr ?boxes"
    using a by (simp add: default_box_generator_ok)
  moreover have "length ?boxes = fw * fh * length shapes"
    using concat_blocks_length [OF generator_blocks_all [of fw fh _ _ shapes]]
    by (simp add: mult.commute)
  moreover have "\<forall>k<length shapes. \<forall>i<fh. \<forall>j<fw.
      ?boxes ! (k * (fw * fh) + (i * fw + j)) =
        ((real j + 1 / 2) * (real W / real fw), (real i + 1 / 2) * (real H / real fh),
         real W / real fw * fst (shapes ! k), real H / real fh * snd (shapes ! k))"
    using a by (simp add: generator_box_at cell_box_centre_form)
  ultimately show "\<exists>boxes. default_box_generator W H fw fh shapes = Inr boxes
         \<and> length boxes = fw * fh * length shapes
         \<and> (\<forall>k<length shapes. \<forall>i<fh. \<forall>j<fw.
              boxes ! (k * (fw * fh) + (i * fw + j)) =
                ((real j + 1 / 2) * (real W / real fw), (real i + 1 / 2) * (real H / real fh),
                 real W / real fw * fst (shapes ! k), real H / real fh * snd (shapes ! k)))"
    by blast
next
  assume a: "dcs self \<noteq> [] \<and> list_all valid_block (dcs self)"
  let ?W = "image_w self" and ?H = "image_h self"
  let ?arrays = "map (block_default_boxes ?W ?H) (dcs self)"
  let ?self' = "self\<lparr>default_boxes_wh := concat ?arrays,
                   dc_block_feature_map_sizes := map (\<lambda>dc. (fmap_width dc, fmap_height dc)) (dcs self),
                   default_boxes := map (clip_box ?W ?H \<circ> to_corners) (concat ?arrays),
                   total_predictions := sum_list (map block_size (dcs self))\<rparr>"
  have g: "generate_default_boxes self = Inr ?self'"
    using a by (simp add: generate_default_boxes_Inr)
  have m: "map (\<lambda>dc. default_box_generator ?W ?H (fmap_width dc) (fmap_height dc) (get_dboxes dc)) (dcs self)
             = map Inr ?arrays"
    using a by (auto simp: list_all_iff valid_block_def default_box_generator_ok block_default_boxes_def)
  have l: "length (concat ?arrays) = (\<Sum>dc\<leftarrow>dcs self. fmap_width dc * fmap_height dc * length (get_dboxes dc))"
    by (simp add: length_concat o_def length_block_default_boxes block_size_def)
  have t: "sum_list (map block_size (dcs self)) = length (concat ?arrays)"
    by (simp add: length_concat o_def length_block_default_boxes)
  show "\<exists>self' arrays. generate_default_boxes self = Inr self'
         \<and> map (\<lambda>dc. default_box_generator (image_w self) (image_h self)
                        (fmap_width dc) (fmap_height dc) (get_dboxes dc)) (dcs self) = map Inr arrays
         \<and> default_boxes_wh self' = concat arrays
         \<and> length (default_boxes_wh self') =
             (\<Sum>dc\<leftarrow>dcs self. fmap_width dc * fmap_height dc * length (get_dboxes dc))
         \<and> length (default_boxes self') = length (default_boxes_wh self')
         \<and> total_predictions self' = length (default_boxes self')"
    apply (rule exI [of _ ?self'])
    apply (rule exI [of _ ?arrays])
    using g m l t by simp
next
  show "generate_default_boxes example_model =
       Inr (example_model
             \<lparr>default_boxes_wh := [(1, 1, 2, 2), (3, 1, 2, 2), (1, 3, 2, 2), (3, 3, 2, 2)],
              dc_block_feature_map_sizes := [(2, 2)],
              default_boxes := [(0, 0, 2, 2), (2, 0, 4, 2), (0, 2, 2, 4), (2, 2, 4, 4)],
              total_predictions := 4\<rparr>)"
    by code_simp
qed

theorem default_box_generator_contract_witness:
  "(\<exists>boxes. default_box_generator 300 200 3 2 [(1, 1), (2, 1 / 2)] = Inr boxes
      \<and> length boxes = 12 \<and> boxes ! 11 = (250, 150, 200, 50))
   \<and> (\<exists>self'. generate_default_boxes two_block_model = Inr self'
        \<and> length (default_boxes_wh self') = 14 \<and> total_predictions self' = 14)"
proof -
  let ?shapes = "[(1, 1), (2, 1 / 2)] :: (real \<times> real) list"
  note T = default_box_generator_contract [of 3 2 ?shapes 300 200 two_block_model]
  have pre: "0 < (3::nat) \<and> 0 < (2::nat) \<and> ?shapes \<noteq> []" by simp
  from T pre obtain boxes where b: "default_box_generator 300 200 3 2 ?shapes = Inr boxes"
    and l: "length boxes = 3 * 2 * length ?shapes"
    and all: "\<forall>k<length ?shapes. \<forall>i<2. \<forall>j<3.
              boxes ! (k * (3 * 2) + (i * 3 + j)) =
                ((real j + 1 / 2) * (real (300::nat) / real (3::nat)),
                 (real i + 1 / 2) * (real (200::nat) / real (2::nat)),
                 real (300::nat) / real (3::nat) * fst (?shapes ! k),
                 real (200::nat) / real (2::nat) * snd (?shapes ! k))"
    by blast
  have e: "boxes ! 11 = (250, 150, 200, 50)"
    using all [rule_format, of 1 1 2] by simp
  have v: "dcs two_block_model \<noteq> [] \<and> list_all valid_block (dcs two_block_model)"
    by (simp add: two_block_model_def valid_block_def)
  with T obtain self' where "generate_default_boxes two_block_model = Inr self'"
    "length (default_boxes_wh self') =
             (\<Sum>dc\<leftarrow>dcs two_block_model. fmap_width dc * fmap_height dc * length (get_dboxes dc))"
    "length (default_boxes self') = length (default_boxes_wh self')"
    "total_predictions self' = length (default_boxes self')"
    by blast
  then have "\<exists>self'. generate_default_boxes two_block_model = Inr self'
        \<and> length (default_boxes_wh self') = 14 \<and> total_predictions self' = 14"
    by (auto simp: two_block_model_def)
  with b l e show ?thesis by auto
qed

lemma block_default_boxes_set:
  assumes "b \<in> set (block_default_boxes W H dc)"
  shows "\<exists>(w, h)\<in>set (get_dboxes dc). \<exists>i<fmap_height dc. \<exists>j<fmap_width dc.
           b = cell_box (real W / real (fmap_width dc)) (real H / real (fmap_height dc)) i j w h"
proof -
  from assms obtain s where s: "s \<in> set (get_dboxes dc)"
    and b: "b \<in> set (fill_boxes (real W / real (fmap_width dc)) (real H / real (fmap_height dc))
                        (fmap_width dc) (fmap_height dc) (fst s) (snd s))"
    by (auto simp: block_default_boxes_def split_beta)
  from fill_boxes_set [OF b] s show ?thesis
    by (cases s) auto
qed

text \<open>
  Claim C6 (corner-form conversion and clipping). After \<open>_generate_default_boxes\<close>, row
  \<open>n\<close> of \<open>default_boxes\<close> is row \<open>n\<close> of \<open>default_boxes_wh\<close>, \<open>(cx, cy, w, h)\<close>,
  converted to \<open>(cx - w/2, cy - h/2, cx + w/2, cy + h/2)\<close> and clipped by
  \<open>x1 = max(0, x1)\<close>, \<open>y1 = max(0, y1)\<close>, \<open>x2 = min(W, x2)\<close>, \<open>y2 = min(H, y2)\<close>; and when
  every shape ratio of every block is strictly positive, every clipped box satisfies
  \<open>0 \<le> x1 \<le> x2 \<le> W\<close> and \<open>0 \<le> y1 \<le> y2 \<le> H\<close>.
\<close>

theorem corner_conversion_and_clipping:
  assumes "generate_default_boxes self = Inr self'"
  shows "default_boxes self' =
           map (\<lambda>(cx, cy, w, h).
                  (max 0 (cx - w / 2), max 0 (cy - h / 2),
                   min (real (image_w self)) (cx + w / 2), min (real (image_h self)) (cy + h / 2)))
               (default_boxes_wh self')
         \<and> ((\<forall>dc\<in>set (dcs self). \<forall>(w, h)\<in>set (get_dboxes dc). 0 < w \<and> 0 < h) \<longrightarrow>
              (\<forall>(x1, y1, x2, y2)\<in>set (default_boxes self').
                 0 \<le> x1 \<and> x1 \<le> x2 \<and> x2 \<le> real (image_w self) \<and>
                 0 \<le> y1 \<and> y1 \<le> y2 \<and> y2 \<le> real (image_h self)))"
proof (intro conjI impI)
  let ?W = "image_w self" and ?H = "image_h self"
  let ?wh = "concat (map (block_default_boxes ?W ?H) (dcs self))"
  from assms have wh: "default_boxes_wh self' = ?wh"
    and db: "default_boxes self' = map (clip_box ?W ?H \<circ> to_corners) ?wh"
    by (simp_all add: generate_default_boxes_Inr)
  have f: "clip_box ?W ?H \<circ> to_corners =
             (\<lambda>(cx, cy, w, h).
                  (max 0 (cx - w / 2), max 0 (cy - h / 2),
                   min (real ?W) (cx + w / 2), min (real ?H) (cy + h / 2)))"
    by (auto simp: fun_eq_iff clip_box_def to_corners_def)
  show "default_boxes self' =
           map (\<lambda>(cx, cy, w, h).
                  (max 0 (cx - w / 2), max 0 (cy - h / 2),
                   min (real ?W) (cx + w / 2), min (real ?H) (cy + h / 2)))
               (default_boxes_wh self')"
    unfolding wh db f ..
  assume pos: "\<forall>dc\<in>set (dcs self). \<forall>(w, h)\<in>set (get_dboxes dc). 0 < w \<and> 0 < h"
  show "\<forall>(x1, y1, x2, y2)\<in>set (default_boxes self').
                 0 \<le> x1 \<and> x1 \<le> x2 \<and> x2 \<le> real ?W \<and>
                 0 \<le> y1 \<and> y1 \<le> y2 \<and> y2 \<le> real ?H"
  proof (clarify)
    fix x1 y1 x2 y2
    assume "(x1, y1, x2, y2) \<in> set (default_boxes self')"
    then obtain dc b where dc: "dc \<in> set (dcs self)"
      and b: "b \<in> set (block_default_boxes ?W ?H dc)"
      and c: "clip_box ?W ?H (to_corners b) = (x1, y1, x2, y2)"
      unfolding db by auto
    from block_default_boxes_set [OF b] obtain w h i j
      where s: "(w, h) \<in> set (get_dboxes dc)" and i: "i < fmap_height dc" and j: "j < fmap_width dc"
        and e: "b = cell_box (real ?W / real (fmap_width dc)) (real ?H / real (fmap_height dc)) i j w h"
      by auto
    from pos dc s have "0 \<le> w" "0 \<le> h" by fastforce+
    from clipped_cell_box_ok [OF i j this c [unfolded e]]
    show "0 \<le> x1 \<and> x1 \<le> x2 \<and> x2 \<le> real ?W \<and> 0 \<le> y1 \<and> y1 \<le> y2 \<and> y2 \<le> real ?H" .
  qed
qed

theorem corner_conversion_and_clipping_witness:
  "(\<exists>m. generate_default_boxes clipping_model = Inr m
      \<and> default_boxes_wh m = [(75, 100, 150, 100), (225, 100, 150, 100), (75, 100, 450, 600), (225, 100, 450, 600)]
      \<and> default_boxes m = [(0, 50, 150, 150), (150, 50, 300, 150), (0, 0, 300, 200), (0, 0, 300, 200)]
      \<and> list_all (\<lambda>(x1, y1, x2, y2). 0 \<le> x1 \<and> x1 \<le> x2 \<and> x2 \<le> 300 \<and> 0 \<le> y1 \<and> y1 \<le> y2 \<and> y2 \<le> 200)
           (default_boxes m))"
proof -
  obtain m where g: "generate_default_boxes clipping_model = Inr m"
    by (simp add: generate_default_boxes_Inr clipping_model_def valid_block_def)
  from g have wh: "default_boxes_wh m =
     [(75, 100, 150, 100), (225, 100, 150, 100), (75, 100, 450, 600), (225, 100, 450, 600)]"
    by (simp add: generate_default_boxes_Inr clipping_model_def valid_block_def
          block_default_boxes_def fill_boxes_def fill_row_def cell_box_def
          upt_rec [of 0] upt_rec [of 1] upt_rec [of 2] numeral_2_eq_2)
  have pos: "\<forall>dc\<in>set (dcs clipping_model). \<forall>(w, h)\<in>set (get_dboxes dc). 0 < w \<and> 0 < h"
    by (simp add: clipping_model_def)
  note T = corner_conversion_and_clipping [OF g]
  from T have 1: "default_boxes m =
      [(0, 50, 150, 150), (150, 50, 300, 150), (0, 0, 300, 200), (0, 0, 300, 200)]"
    unfolding wh by (simp add: clipping_model_def)
  from T pos have "\<forall>(x1, y1, x2, y2)\<in>set (default_boxes m).
                 0 \<le> x1 \<and> x1 \<le> x2 \<and> x2 \<le> real (image_w clipping_model) \<and>
                 0 \<le> y1 \<and> y1 \<le> y2 \<and> y2 \<le> real (image_h clipping_model)"
    by blast
  then have 2: "list_all (\<lambda>(x1, y1, x2, y2). 0 \<le> x1 \<and> x1 \<le> x2 \<and> x2 \<le> 300 \<and> 0 \<le> y1 \<and> y1 \<le> y2 \<and> y2 \<le> 200)
       (default_boxes m)"
    unfolding list_all_iff by (simp add: clipping_model_def)
  from g wh 1 2 show ?thesis by blast
qed

lemma blocks_to_pass_sum:
  assumes "\<forall>i\<in>set js. i < length (dc_block_feature_map_sizes m) \<and> i < length (dcs m)"
  shows "blocks_to_pass m js acc =
           Inr (acc + sum_list (map (\<lambda>i. fst (dc_block_feature_map_sizes m ! i)
                                       * snd (dc_block_feature_map_sizes m ! i)
                                       * length (get_dboxes (dcs m ! i))) js))"
  using assms by (induction js arbitrary: acc) (simp_all add: add.assoc)

lemma fold_add_constant: "fold (\<lambda>i acc. acc + a) js (p::nat) = p + length js * a"
  by (induction js arbitrary: p) simp_all

lemma map_nth_upt_take: "b \<le> length xs \<Longrightarrow> map (\<lambda>i. f (xs ! i)) [0..<b] = map f (take b xs)"
  by (rule nth_equalityI) simp_all

lemma concat_nth_offset:
  assumes "b < length xss" and "r < length (xss ! b)"
  shows "concat xss ! (length (concat (take b xss)) + r) = xss ! b ! r"
proof -
  have "xss = take b xss @ xss ! b # drop (Suc b) xss"
    using assms(1) by (simp add: id_take_nth_drop [symmetric])
  then have "concat xss = concat (take b xss) @ xss ! b @ concat (drop (Suc b) xss)"
    by (metis concat.simps(2) concat_append)
  then show ?thesis using assms(2) by (simp add: nth_append)
qed

lemma length_concat_le:
  assumes "b < length xss" and "r < length (xss ! b)"
  shows "length (concat (take b xss)) + r < length (concat xss)"
proof -
  have "xss = take b xss @ xss ! b # drop (Suc b) xss"
    using assms(1) by (simp add: id_take_nth_drop [symmetric])
  then have "concat xss = concat (take b xss) @ xss ! b @ concat (drop (Suc b) xss)"
    by (metis concat.simps(2) concat_append)
  then have "length (concat xss) =
      length (concat (take b xss)) + length (xss ! b) + length (concat (drop (Suc b) xss))"
    by (metis add.assoc length_append)
  then show ?thesis using assms(2) by simp
qed

text \<open>
  What \<open>get_dbox\<close> reads: with \<open>x_pos\<close> below the height and \<open>y_pos\<close> below the width of the
  feature map, the clipped box that the generator made for row \<open>x_pos\<close> and column \<open>y_pos\<close>.
\<close>

lemma get_dbox_row_column:
  assumes g: "generate_default_boxes self = Inr m"
    and b: "b < length (dcs self)" and s: "s < length (get_dboxes (dcs self ! b))"
    and x: "x < fmap_height (dcs self ! b)" and y: "y < fmap_width (dcs self ! b)"
  shows "get_dbox m b s x y =
           Inr (clip_box (image_w self) (image_h self)
                 (to_corners
                   (cell_box (real (image_w self) / real (fmap_width (dcs self ! b)))
                             (real (image_h self) / real (fmap_height (dcs self ! b)))
                             x y (fst (get_dboxes (dcs self ! b) ! s)) (snd (get_dboxes (dcs self ! b) ! s)))))"
proof -
  let ?W = "image_w self" and ?H = "image_h self" and ?dc = "dcs self ! b"
  let ?fw = "fmap_width ?dc" and ?fh = "fmap_height ?dc"
  let ?arrays = "map (block_default_boxes ?W ?H) (dcs self)"
  let ?r = "s * (?fw * ?fh) + (x * ?fw + y)"
  from g have m: "dcs m = dcs self"
    "dc_block_feature_map_sizes m = map (\<lambda>dc. (fmap_width dc, fmap_height dc)) (dcs self)"
    "default_boxes m = map (clip_box ?W ?H \<circ> to_corners) (concat ?arrays)"
    by (simp_all add: generate_default_boxes_Inr)
  have pass: "blocks_to_pass m [0..<b] 0 = Inr (length (concat (take b ?arrays)))"
  proof -
    have "blocks_to_pass m [0..<b] 0 =
            Inr (0 + sum_list (map (\<lambda>i. fst (dc_block_feature_map_sizes m ! i)
                                       * snd (dc_block_feature_map_sizes m ! i)
                                       * length (get_dboxes (dcs m ! i))) [0..<b]))"
      using b by (intro blocks_to_pass_sum) (simp add: m)
    also have "map (\<lambda>i. fst (dc_block_feature_map_sizes m ! i)
                                       * snd (dc_block_feature_map_sizes m ! i)
                                       * length (get_dboxes (dcs m ! i))) [0..<b]
               = map (\<lambda>i. block_size (dcs self ! i)) [0..<b]"
      using b by (simp add: m block_size_def)
    also have "\<dots> = map block_size (take b (dcs self))"
      using b by (simp add: map_nth_upt_take)
    also have "sum_list (map block_size (take b (dcs self))) = length (concat (take b ?arrays))"
      by (simp add: length_concat take_map o_def length_block_default_boxes)
    finally show ?thesis by simp
  qed
  have "x * ?fw + y < Suc x * ?fw" using y by simp
  also have "\<dots> \<le> ?fh * ?fw" using x by (intro mult_le_mono1) simp
  finally have cell: "x * ?fw + y < ?fw * ?fh" by (simp add: mult.commute)
  have "?r < s * (?fw * ?fh) + ?fw * ?fh" using cell by simp
  also have "\<dots> = Suc s * (?fw * ?fh)" by simp
  also have "\<dots> \<le> length (get_dboxes ?dc) * (?fw * ?fh)" using s by (intro mult_le_mono1) simp
  finally have r: "?r < length (?arrays ! b)"
    using b by (simp add: length_block_default_boxes block_size_def mult.commute)
  have fw: "0 < ?fw" and fh: "0 < ?fh" using x y by simp_all
  have box: "concat ?arrays ! (length (concat (take b ?arrays)) + ?r) =
               cell_box (real ?W / real ?fw) (real ?H / real ?fh) x y
                 (fst (get_dboxes ?dc ! s)) (snd (get_dboxes ?dc ! s))"
  proof -
    have "concat ?arrays ! (length (concat (take b ?arrays)) + ?r) = ?arrays ! b ! ?r"
      using b r by (intro concat_nth_offset) simp_all
    also have "\<dots> = block_default_boxes ?W ?H ?dc ! ?r" using b by simp
    also have "\<dots> = cell_box (real ?W / real ?fw) (real ?H / real ?fh) x y
                 (fst (get_dboxes ?dc ! s)) (snd (get_dboxes ?dc ! s))"
      unfolding block_default_boxes_def using fw fh s x y by (rule generator_box_at)
    finally show ?thesis .
  qed
  have lt: "length (concat (take b ?arrays)) + ?r < length (concat ?arrays)"
    using b r by (intro length_concat_le) simp_all
  have off: "length (concat (take b ?arrays)) + s * (?fw * ?fh) + ?fw * x + y =
               length (concat (take b ?arrays)) + ?r"
    by (simp add: mult.commute)
  show ?thesis
    unfolding get_dbox_def pass
    using b lt box
    by (simp add: m Let_def fold_add_constant off)
qed

text \<open>
  Claim C1 (round trip of \<open>get_dbox\<close> and the generator) at the model of the
  specification's own scenario. For column \<open>x = 1\<close> and row \<open>y = 0\<close> the generator's
  iteration step is \<open>i = 0\<close>, \<open>j = 1\<close>, whose clipped corner box is \<open>(2, 0, 4, 2)\<close>;
  \<open>get_dbox(0, 0, 1, 0)\<close> reads offset \<open>fw * x + y = 2\<close> and returns \<open>(0, 2, 2, 4)\<close>, the
  box of column 0 and row 1. On a 3 x 1 feature map the same call leaves the array.
\<close>

theorem get_dbox_reads_transposed_cell:
  "(\<exists>m. generate_default_boxes example_model = Inr m
      \<and> default_boxes_wh m ! (0 * 2 + 1) = cell_box (4 / 2) (4 / 2) 0 1 1 1
      \<and> clip_box 4 4 (to_corners (cell_box (4 / 2) (4 / 2) 0 1 1 1)) = (2, 0, 4, 2)
      \<and> get_dbox m 0 0 1 0 = Inr (0, 2, 2, 4)
      \<and> get_dbox m 0 0 0 1 = Inr (2, 0, 4, 2))
   \<and> (\<exists>m. generate_default_boxes
            (example_model\<lparr>dcs := [\<lparr>fmap_width = 3, fmap_height = 1, get_dboxes = [(1, 1)]\<rparr>]\<rparr>) = Inr m
      \<and> length (default_boxes m) = 3
      \<and> get_dbox m 0 0 1 0 = Inl IndexError)"
proof -
  have 1: "generate_default_boxes example_model =
       Inr (example_model
             \<lparr>default_boxes_wh := [(1, 1, 2, 2), (3, 1, 2, 2), (1, 3, 2, 2), (3, 3, 2, 2)],
              dc_block_feature_map_sizes := [(2, 2)],
              default_boxes := [(0, 0, 2, 2), (2, 0, 4, 2), (0, 2, 2, 4), (2, 2, 4, 4)],
              total_predictions := 4\<rparr>)"
    by code_simp
  have 2: "cell_box (4 / 2) (4 / 2) 0 1 1 1 = (3, 1, 2, 2)"
    by (simp add: cell_box_def)
  have 3: "clip_box 4 4 (to_corners (3, 1, 2, 2)) = (2, 0, 4, 2)"
    by (simp add: clip_box_def to_corners_def)
  have 4: "get_dbox (example_model
             \<lparr>default_boxes_wh := [(1, 1, 2, 2), (3, 1, 2, 2), (1, 3, 2, 2), (3, 3, 2, 2)],
              dc_block_feature_map_sizes := [(2, 2)],
              default_boxes := [(0, 0, 2, 2), (2, 0, 4, 2), (0, 2, 2, 4), (2, 2, 4, 4)],
              total_predictions := 4\<rparr>) 0 0 1 0 = Inr (0, 2, 2, 4)"
    by code_simp
  have 5: "get_dbox (example_model
             \<lparr>default_boxes_wh := [(1, 1, 2, 2), (3, 1, 2, 2), (1, 3, 2, 2), (3, 3, 2, 2)],
              dc_block_feature_map_sizes := [(2, 2)],
              default_boxes := [(0, 0, 2, 2), (2, 0, 4, 2), (0, 2, 2, 4), (2, 2, 4, 4)],
              total_predictions := 4\<rparr>) 0 0 0 1 = Inr (2, 0, 4, 2)"
    by code_simp
  let ?wide = "example_model\<lparr>dcs := [\<lparr>fmap_width = 3, fmap_height = 1, get_dboxes = [(1, 1)]\<rparr>]\<rparr>"
  obtain m where g: "generate_default_boxes ?wide = Inr m"
    by (simp add: generate_default_boxes_Inr example_model_def valid_block_def)
  have "length (default_boxes (projr (generate_default_boxes ?wide))) = 3"
    by code_simp
  moreover have "get_dbox (projr (generate_default_boxes ?wide)) 0 0 1 0 = Inl IndexError"
    by code_simp
  ultimately have 6: "length (default_boxes m) = 3 \<and> get_dbox m 0 0 1 0 = Inl IndexError"
    using g by simp
  from 1 2 3 4 5 have A: "\<exists>m. generate_default_boxes example_model = Inr m
      \<and> default_boxes_wh m ! (0 * 2 + 1) = cell_box (4 / 2) (4 / 2) 0 1 1 1
      \<and> clip_box 4 4 (to_corners (cell_box (4 / 2) (4 / 2) 0 1 1 1)) = (2, 0, 4, 2)
      \<and> get_dbox m 0 0 1 0 = Inr (0, 2, 2, 4)
      \<and> get_dbox m 0 0 0 1 = Inr (2, 0, 4, 2)"
    by simp
  from g 6 A show ?thesis by blast
qed

section \<open>Properties of the losses\<close>
























section \<open>Properties of the training operations\<close>







lemma prepared_id:
  "training_vars_are_ready s \<Longrightarrow> set_for_training s \<Longrightarrow> prepared s = s"
  by (simp add: prepared_def)








section \<open>Properties of the training loops\<close>

lemma guard_never_true [simp]: "\<not> py_is (Instance c msg) (Class KeyboardInterrupt_class)"
  by (simp add: py_is_def)



lemma run_batches_leaves:
  "leaves_batch_loop bs = Some e \<Longrightarrow> fst (run_batches update bs running) = Inl e"
  by (induction update bs running rule: run_batches.induct) (auto simp: split_beta split: if_splits)

lemma run_batches_stays:
  "leaves_batch_loop bs = None \<Longrightarrow> \<exists>r. fst (run_batches update bs running) = Inr r"
  by (induction update bs running rule: run_batches.induct) (auto simp: split_beta split: if_splits)


lemma run_epochs_length:
  "length (fst (snd (run_epochs update zero i epochs train_losses iterator))) =
     length train_losses + completed_epochs epochs"
proof (induction epochs arbitrary: i train_losses iterator)
  case Nil
  then show ?case by simp
next
  case (Cons ep epochs)
  obtain r out where a: "run_batches update (batches ep) zero = (r, out)"
    by (cases "run_batches update (batches ep) zero")
  show ?case
  proof (cases "shuffle_raises ep")
    case (Some e)
    then show ?thesis by simp
  next
    case None
    show ?thesis
    proof (cases "leaves_batch_loop (batches ep)")
      case n: None
      from run_batches_stays [OF n, of update zero] obtain running where "r = Inr running"
        unfolding a by auto
      with a None n Cons.IH show ?thesis by (simp add: split_beta)
    next
      case (Some e)
      from run_batches_leaves [OF Some, of update zero] have "r = Inl e"
        unfolding a by simp
      with a None Some Cons.IH show ?thesis by (cases e) (simp add: split_beta)
    qed
  qed
qed

lemma fit_loop_result:
  "fst (fit_loop update zero result epochs) =
     Inr (result (fst (snd (run_epochs update zero 0 epochs [] False))))"
  by (simp add: fit_loop_def split_beta)





lemma history_lengths:
  "length (fst (snd (run_epochs update zero 0 epochs [] False))) = completed_epochs epochs"
  using run_epochs_length [of update zero 0 epochs "[]" False] by simp

text \<open>
  Claim C10 (\<open>fit\<close> never propagates an exception), as the code has it. Once the epoch loop
  is reached, each of \<open>fit_focal\<close>, \<open>fit_top_k\<close> and \<open>fit_scan\<close> returns its dictionary of
  loss histories, every list of which has one entry per fully completed epoch, whatever is
  raised: the \<open>return\<close> of the \<open>finally\<close> block discards an exception that leaves the epoch
  loop. The guard \<open>ex is KeyboardInterrupt\<close> is never true, so the handler of the batch
  prints and skips every exception it catches, and these are the instances of
  \<open>Exception\<close>. \<open>KeyboardInterrupt\<close> is not one of them: it is caught by neither handler,
  ends the batch loop and the epoch loop, and is discarded by the \<open>finally\<close> block.
\<close>

theorem fit_never_propagates:
  "(\<exists>h. fst (fit_focal epochs) = Inr h
        \<and> map fst h = [''focal losses'', ''total losses'', ''loc losses'']
        \<and> list_all (\<lambda>(key, losses). length losses = completed_epochs epochs) h)
   \<and> (\<exists>h. fst (fit_top_k epochs') = Inr h
        \<and> map fst h = [''positive losses'', ''negative losses'', ''total losses'', ''loc losses'']
        \<and> list_all (\<lambda>(key, losses). length losses = completed_epochs epochs') h)
   \<and> (\<exists>h. fst (fit_scan epochs') = Inr h
        \<and> map fst h = [''positive losses'', ''negative losses'', ''total losses'', ''loc losses'']
        \<and> list_all (\<lambda>(key, losses). length losses = completed_epochs epochs') h)
   \<and> \<not> py_is (Instance c msg) (Class KeyboardInterrupt_class)
   \<and> (issubclass_Exception c \<longrightarrow>
        run_batches update (RunRaises c msg # rest) running =
          (case run_batches update rest running of (r, out) \<Rightarrow> (r, PrintException c msg # out)))
   \<and> \<not> issubclass_Exception KeyboardInterrupt_class
   \<and> run_batches update (RunRaises KeyboardInterrupt_class msg # rest) running =
        (Inl (KeyboardInterrupt_class, msg), [])
   \<and> loop_result (run_epochs update zero i
          (ep\<lparr>shuffle_raises := None, batches := RunRaises KeyboardInterrupt_class msg # rest\<rparr> # later)
          train_losses iterator) =
        (Some (KeyboardInterrupt_class, msg), train_losses, True)"
proof -
  have 1: "\<exists>h. fst (fit_focal epochs) = Inr h
        \<and> map fst h = [''focal losses'', ''total losses'', ''loc losses'']
        \<and> list_all (\<lambda>(key, losses). length losses = completed_epochs epochs) h"
    unfolding fit_focal_def fit_loop_result
    by (simp add: focal_history_def history_lengths)
  have 2: "\<exists>h. fst (fit_top_k epochs') = Inr h
        \<and> map fst h = [''positive losses'', ''negative losses'', ''total losses'', ''loc losses'']
        \<and> list_all (\<lambda>(key, losses). length losses = completed_epochs epochs') h"
    unfolding fit_top_k_def fit_loop_result
    by (simp add: mining_history_def history_lengths)
  have 3: "\<exists>h. fst (fit_scan epochs') = Inr h
        \<and> map fst h = [''positive losses'', ''negative losses'', ''total losses'', ''loc losses'']
        \<and> list_all (\<lambda>(key, losses). length losses = completed_epochs epochs') h"
    unfolding fit_scan_def fit_loop_result
    by (simp add: mining_history_def history_lengths)
  have 4: "loop_result (run_epochs update zero i
          (ep\<lparr>shuffle_raises := None, batches := RunRaises KeyboardInterrupt_class msg # rest\<rparr> # later)
          train_losses iterator) =
        (Some (KeyboardInterrupt_class, msg), train_losses, True)"
    by (simp add: loop_result_def)
  from 1 2 3 4 show ?thesis by (simp add: split_beta)
qed

theorem fit_never_propagates_witness:
  "(\<exists>h. fst (fit_focal [\<lparr>shuffle_raises = None, batches = [RunReturns (1, 1, 1)]\<rparr>,
                         \<lparr>shuffle_raises = None,
                           batches = [RunRaises KeyboardInterrupt_class ''Ctrl-C'', RunReturns (1, 1, 1)]\<rparr>,
                         \<lparr>shuffle_raises = None, batches = [RunReturns (1, 1, 1)]\<rparr>]) = Inr h
        \<and> list_all (\<lambda>(key, losses). length losses = 1) h)
   \<and> run_batches focal_update [RunRaises (SubclassOfException ''InvalidArgumentError'') ''k''] (1, 1, 1) =
       (Inr (1, 1, 1), [PrintException (SubclassOfException ''InvalidArgumentError'') ''k''])"
proof -
  let ?eps = "[\<lparr>shuffle_raises = None, batches = [RunReturns (1, 1, 1)]\<rparr>,
               \<lparr>shuffle_raises = None,
                 batches = [RunRaises KeyboardInterrupt_class ''Ctrl-C'', RunReturns (1, 1, 1)]\<rparr>,
               \<lparr>shuffle_raises = None, batches = [RunReturns (1, 1, 1)]\<rparr>] :: (real \<times> real \<times> real) epoch list"
  note T = fit_never_propagates [of ?eps _ "SubclassOfException ''InvalidArgumentError''" "''k''"
      focal_update "[]" "(1, 1, 1)"]
  have n: "completed_epochs ?eps = 1" by simp
  have c: "issubclass_Exception (SubclassOfException ''InvalidArgumentError'')" by simp
  from T have "\<exists>h. fst (fit_focal ?eps) = Inr h
        \<and> list_all (\<lambda>(key, losses). length losses = completed_epochs ?eps) h" by blast
  then have a: "\<exists>h. fst (fit_focal ?eps) = Inr h \<and> list_all (\<lambda>(key, losses). length losses = 1) h"
    unfolding n .
  from T c have "run_batches focal_update [RunRaises (SubclassOfException ''InvalidArgumentError'') ''k''] (1, 1, 1) =
          (case run_batches focal_update [] (1, 1, 1) of (r, out) \<Rightarrow>
             (r, PrintException (SubclassOfException ''InvalidArgumentError'') ''k'' # out))"
    by blast
  then have b: "run_batches focal_update [RunRaises (SubclassOfException ''InvalidArgumentError'') ''k''] (1, 1, 1) =
       (Inr (1, 1, 1), [PrintException (SubclassOfException ''InvalidArgumentError'') ''k''])"
    by simp
  from a b show ?thesis by blast
qed

theorem keyboard_interrupt_not_skipped_counterexample:
  "fit_focal [\<lparr>shuffle_raises = None,
                batches = [RunRaises KeyboardInterrupt_class ''Ctrl-C'', RunReturns (1, 1, 1)]\<rparr>] =
     (Inr [(''focal losses'', []), (''total losses'', []), (''loc losses'', [])],
      [PrintText ''Start shuffling...'', PrintText ''Finished shuffling.'', IteratorClose])
   \<and> fit_focal [\<lparr>shuffle_raises = None, batches = [RunReturns (1, 1, 1)]\<rparr>] =
     (Inr [(''focal losses'', [1 / 10]), (''total losses'', [1 / 10]), (''loc losses'', [1 / 10])],
      [PrintText ''Start shuffling...'', PrintText ''Finished shuffling.'',
       PrintEpoch 0 (1 / 10, 1 / 10, 1 / 10), IteratorClose])"
  by (simp add: fit_focal_def fit_loop_def focal_update_def focal_history_def)

section \<open>Properties of the balancer\<close>

lemma balancer_in_use_built:
  "\<exists>self t. init [[1, 0], [0, 1]] [10, 20] ''alpha'' 5 10000 (0, []) = Inr (1, [], self)
      \<and> build_train_op 3 self = Inr (t, balancer_in_use)"
  by (simp add: init_def reset_def build_objective_def setup_initial_values_def new_balancer_def
      build_train_op_def balancer_in_use_def Let_def numeral_2_eq_2)

text \<open>
  Claim C9 (an unknown objective name given to \<open>reset\<close> or to the constructor), as the code
  has it. For a name other than \<open>alpha\<close> and \<open>geo\<close>, \<open>reset\<close> prints its message and raises
  nothing; the objective (like the bounds, the vectors, the placeholder and the training
  operation) keeps its previous value, but the cardinalities are replaced by a new
  variable initialised from \<open>initial_c\<close>, the scaled vectors by the product with that new
  variable, and the bound optimizer by \<open>None\<close>. The constructor leaves an object whose
  objective is not assigned.
\<close>

theorem reset_unknown_objective:
  assumes "name \<noteq> ''alpha''" and "name \<noteq> ''geo''" and "vecs self = Value v"
  shows "reset initial_c name (n, out, self) =
           Inr (Suc n, out @ [unknown_objective_message],
                self\<lparr>cardinalities := Value (Variable n initial_c),
                      scaled_hcvgs := Value (MatMul v (Variable n initial_c)),
                      optimizer := Value None\<rparr>)
       \<and> (\<forall>i c. cardinalities self = Value (Variable i c) \<and> i < n \<longrightarrow>
             cardinalities self \<noteq> Value (Variable n initial_c))
       \<and> init hcv_groups_T initial_c name min_c max_c (n, out) =
           Inr (Suc n, out @ [unknown_objective_message],
                \<lparr>min_amount = min_c, max_amount = max_c,
                 vecs = Value (Constant hcv_groups_T),
                 dest_v = Value (Placeholder (length hcv_groups_T)),
                 cardinalities = Value (Variable n initial_c),
                 scaled_hcvgs = Value (MatMul (Constant hcv_groups_T) (Variable n initial_c)),
                 objective = Unset, optimizer = Value None, train_op = Unset\<rparr>)"
  using assms
  by (auto simp: reset_def build_objective_def init_def setup_initial_values_def new_balancer_def
      unknown_objective_message_def Let_def)

theorem reset_unknown_objective_witness:
  "reset [5, 5] ''beta'' (1, [], balancer_in_use) =
     Inr (2, [unknown_objective_message],
          balancer_in_use\<lparr>cardinalities := Value (Variable 1 [5, 5]),
                           scaled_hcvgs := Value (MatMul (Constant [[1, 0], [0, 1]]) (Variable 1 [5, 5])),
                           optimizer := Value None\<rparr>)
   \<and> cardinalities balancer_in_use \<noteq> Value (Variable 1 [5, 5])"
proof -
  have n: "''beta'' \<noteq> ''alpha''" "''beta'' \<noteq> ''geo''" by simp_all
  have v: "vecs balancer_in_use = Value (Constant [[1, 0], [0, 1]])"
    by (simp add: balancer_in_use_def Let_def)
  have c: "cardinalities balancer_in_use = Value (Variable 0 [10, 20]) \<and> (0::nat) < 1"
    by (simp add: balancer_in_use_def Let_def)
  from reset_unknown_objective [OF n v, of "[5, 5]" 1 "[]"] c show ?thesis
    by (simp add: balancer_in_use_def)
qed

theorem reset_not_atomic_counterexample:
  "\<exists>self'. reset [5, 5] ''beta'' (1, [], balancer_in_use) = Inr (2, [unknown_objective_message], self')
      \<and> cardinalities self' \<noteq> cardinalities balancer_in_use
      \<and> scaled_hcvgs self' \<noteq> scaled_hcvgs balancer_in_use
      \<and> optimizer self' \<noteq> optimizer balancer_in_use
      \<and> objective self' = objective balancer_in_use"
  by (simp add: reset_def build_objective_def balancer_in_use_def unknown_objective_message_def Let_def)

end
